theory Spec2Isabelle
  imports Complex_Main
begin

section \<open>Strings as the scraper uses them\<close>

text \<open>
  A JavaScript string is modelled as a list of code units, restricted to the units
  below 256. \<open>String.prototype.trim\<close> removes white space and line terminators from
  both ends; in this range these are TAB, LF, VT, FF, CR, SPACE and NBSP.
\<close>

definition isWhiteSpace :: "char \<Rightarrow> bool" where
  "isWhiteSpace c \<longleftrightarrow>
     c = CHR 0x09 \<or> c = CHR 0x0A \<or> c = CHR 0x0B \<or> c = CHR 0x0C \<or> c = CHR 0x0D
     \<or> c = CHR 0x20 \<or> c = CHR 0xA0"

definition trim :: "string \<Rightarrow> string" where
  "trim s = rev (dropWhile isWhiteSpace (rev (dropWhile isWhiteSpace s)))"

text \<open>\<open>s.startsWith(p)\<close> and \<open>s.includes(p)\<close>.\<close>

definition startsWith :: "string \<Rightarrow> string \<Rightarrow> bool" where
  "startsWith s p \<longleftrightarrow> take (length p) s = p"

fun includes_str :: "string \<Rightarrow> string \<Rightarrow> bool" where
  "includes_str [] p = (p = [])"
| "includes_str (c # cs) p = (startsWith (c # cs) p \<or> includes_str cs p)"

text \<open>
  A property of a record that may be absent (\<open>undefined\<close> or \<open>null\<close>) is a
  \<open>string option\<close>. \<open>truthy\<close> is JavaScript's truthiness of such a value,
  \<open>orNA\<close> is \<open>x || "N/A"\<close> and \<open>trimOrNA\<close> is \<open>x?.trim() || "N/A"\<close>.
\<close>

fun truthy :: "string option \<Rightarrow> bool" where
  "truthy None = False"
| "truthy (Some s) = (s \<noteq> [])"

definition orNA :: "string option \<Rightarrow> string" where
  "orNA x = (if truthy x then the x else ''N/A'')"

definition trimOrNA :: "string option \<Rightarrow> string" where
  "trimOrNA x = orNA (map_option trim x)"

section \<open>Job records, validation and sanitization (utils.ts)\<close>

text \<open>
  \<open>JobData\<close> as \<open>isValidJobData\<close> and \<open>sanitizeJobData\<close> see it: their parameter
  is typed \<open>any\<close>, so every property may be missing. The field \<open>id\<close> is named
  \<open>job_id\<close> here. Properties beyond the listed ones live in the record's extension,
  which the spread \<open>...job\<close> keeps.
\<close>

record job_data =
  job_id :: "string option"
  title :: "string option"
  company :: "string option"
  companyLink :: "string option"
  companyImgLink :: "string option"
  location :: "string option"
  date :: "string option"
  link :: "string option"
  applyLink :: "string option"
  description :: "string option"
  salary :: "string option"
  jobType :: "string option"
  experienceLevel :: "string option"

definition isValidJobData :: "'a job_data_scheme \<Rightarrow> bool" where
  "isValidJobData job \<longleftrightarrow>
     truthy (title job) \<and> truthy (company job) \<and> truthy (job_id job)
     \<and> map_option trim (title job) \<noteq> Some []
     \<and> map_option trim (company job) \<noteq> Some []"

definition sanitizeJobData :: "'a job_data_scheme \<Rightarrow> 'a job_data_scheme" where
  "sanitizeJobData job = job
     \<lparr> title := Some (trimOrNA (title job)),
       company := Some (trimOrNA (company job)),
       location := Some (trimOrNA (location job)),
       date := Some (trimOrNA (date job)),
       link := Some (orNA (link job)),
       companyLink := Some (orNA (companyLink job)),
       companyImgLink := Some (orNA (companyImgLink job)),
       applyLink := Some (orNA (applyLink job)),
       description := Some (trimOrNA (description job)),
       salary := Some (trimOrNA (salary job)),
       jobType := Some (trimOrNA (jobType job)),
       experienceLevel := Some (trimOrNA (experienceLevel job)) \<rparr>"

text \<open>\<open>jobs.filter(isValidJobData).map(sanitizeJobData)\<close> of \<open>scrapeJobsWithRetry\<close>.\<close>

definition validJobs :: "'a job_data_scheme list \<Rightarrow> 'a job_data_scheme list" where
  "validJobs jobs = map sanitizeJobData (filter isValidJobData jobs)"

section \<open>Facts about trimming\<close>

lemma dropWhile_rev_head:
  assumes "xs = [] \<or> \<not> P (hd xs)"
  shows "rev (dropWhile P (rev xs)) = [] \<or> \<not> P (hd (rev (dropWhile P (rev xs))))"
proof -
  have "rev xs = takeWhile P (rev xs) @ dropWhile P (rev xs)" by simp
  then have "rev (rev xs) = rev (takeWhile P (rev xs) @ dropWhile P (rev xs))" by simp
  then have split: "xs = rev (dropWhile P (rev xs)) @ rev (takeWhile P (rev xs))"
    by (simp only: rev_rev_ident rev_append)
  show ?thesis
  proof (cases "rev (dropWhile P (rev xs)) = []")
    case True
    then show ?thesis by simp
  next
    case False
    then have "hd xs = hd (rev (dropWhile P (rev xs)))"
      using split by (metis hd_append2)
    moreover have "xs \<noteq> []" using False by auto
    ultimately show ?thesis using assms by simp
  qed
qed

lemma dropWhile_head: "dropWhile P xs = [] \<or> \<not> P (hd (dropWhile P xs))"
  by (metis hd_dropWhile)

lemma dropWhile_fixed: "xs = [] \<or> \<not> P (hd xs) \<Longrightarrow> dropWhile P xs = xs"
  by (cases xs) auto

lemma trim_head: "trim s = [] \<or> \<not> isWhiteSpace (hd (trim s))"
  unfolding trim_def by (rule dropWhile_rev_head) (rule dropWhile_head)

lemma trim_trim: "trim (trim s) = trim s"
proof -
  have front: "dropWhile isWhiteSpace (trim s) = trim s"
    by (rule dropWhile_fixed) (rule trim_head)
  have rear: "dropWhile isWhiteSpace (rev (trim s)) = rev (trim s)"
    unfolding trim_def by (simp add: dropWhile_idem)
  show ?thesis
    unfolding trim_def [of "trim s"] front rear by simp
qed

lemma trim_NA: "trim ''N/A'' = ''N/A''"
  by (simp add: trim_def isWhiteSpace_def)

lemma orNA_nonempty: "orNA x \<noteq> []"
  by (cases x) (auto simp: orNA_def)

lemma trimOrNA_nonempty: "trimOrNA x \<noteq> []"
  by (simp add: trimOrNA_def orNA_nonempty)

lemma orNA_idem: "orNA (Some (orNA x)) = orNA x"
  by (cases x) (auto simp: orNA_def)

lemma trimOrNA_trimmed: "trim (trimOrNA x) = trimOrNA x"
  by (cases x) (auto simp: trimOrNA_def orNA_def trim_NA trim_trim)

lemma trimOrNA_idem: "trimOrNA (Some (trimOrNA x)) = trimOrNA x"
  using trimOrNA_nonempty [of x] by (simp add: trimOrNA_def [of "Some _"] trimOrNA_trimmed orNA_def)


lemma sanitize_fields:
  "job_id (sanitizeJobData j) = job_id j"
  "title (sanitizeJobData j) = Some (trimOrNA (title j))"
  "company (sanitizeJobData j) = Some (trimOrNA (company j))"
  "location (sanitizeJobData j) = Some (trimOrNA (location j))"
  "date (sanitizeJobData j) = Some (trimOrNA (date j))"
  "link (sanitizeJobData j) = Some (orNA (link j))"
  "companyLink (sanitizeJobData j) = Some (orNA (companyLink j))"
  "companyImgLink (sanitizeJobData j) = Some (orNA (companyImgLink j))"
  "applyLink (sanitizeJobData j) = Some (orNA (applyLink j))"
  "description (sanitizeJobData j) = Some (trimOrNA (description j))"
  "salary (sanitizeJobData j) = Some (trimOrNA (salary j))"
  "jobType (sanitizeJobData j) = Some (trimOrNA (jobType j))"
  "experienceLevel (sanitizeJobData j) = Some (trimOrNA (experienceLevel j))"
  by (simp_all add: sanitizeJobData_def)

lemma sanitize_valid: "isValidJobData j \<Longrightarrow> isValidJobData (sanitizeJobData j)"
  by (simp add: isValidJobData_def sanitize_fields trimOrNA_nonempty trimOrNA_trimmed)

text \<open>A value is blank when it is missing or consists of white space only.\<close>

definition blank :: "string option \<Rightarrow> bool" where
  "blank x \<longleftrightarrow> (case x of None \<Rightarrow> True | Some s \<Rightarrow> trim s = [])"

lemma blank_trimOrNA: "blank x \<Longrightarrow> trimOrNA x = ''N/A''"
  by (cases x) (auto simp: blank_def trimOrNA_def orNA_def)

lemma falsy_orNA: "\<not> truthy x \<Longrightarrow> orNA x = ''N/A''"
  by (simp add: orNA_def)

section \<open>Normalization is idempotent\<close>

text \<open>
  Claim C9. Sanitizing a record that has already been sanitized changes nothing:
  \<open>sanitizeJobData (sanitizeJobData j) = sanitizeJobData j\<close> for every record \<open>j\<close>,
  whatever properties it has or lacks.
\<close>

theorem sanitizeJobData_idempotent:
  "sanitizeJobData (sanitizeJobData j) = sanitizeJobData j"
  by (simp add: sanitizeJobData_def trimOrNA_idem orNA_idem)

section \<open>Every returned record passes validation\<close>

text \<open>
  Claim C8, as the code has it. Every record \<open>out\<close> of
  \<open>jobs.filter(isValidJobData).map(sanitizeJobData)\<close> passes \<open>isValidJobData\<close>: its
  title and its company are non-empty after trimming and its id is non-empty (the id
  is tested for truthiness only, it is never trimmed). Each of the twelve listed
  properties of \<open>out\<close> is a non-empty string. \<open>out\<close> is the sanitized form of a valid
  raw record \<open>j\<close>, in which a missing or white-space-only location, date, description,
  salary, jobType or experienceLevel has become "N/A", and a missing or empty link,
  companyLink, companyImgLink or applyLink has become "N/A".
\<close>

theorem validJobs_valid_and_defaulted:
  "\<forall>out \<in> set (validJobs raw).
     isValidJobData out
     \<and> map_option trim (title out) \<noteq> Some [] \<and> map_option trim (company out) \<noteq> Some []
     \<and> truthy (job_id out)
     \<and> truthy (title out) \<and> truthy (company out) \<and> truthy (location out)
     \<and> truthy (date out) \<and> truthy (link out) \<and> truthy (companyLink out)
     \<and> truthy (companyImgLink out) \<and> truthy (applyLink out) \<and> truthy (description out)
     \<and> truthy (salary out) \<and> truthy (jobType out) \<and> truthy (experienceLevel out)
     \<and> (\<exists>j \<in> set raw. isValidJobData j \<and> out = sanitizeJobData j
          \<and> (blank (location j) \<longrightarrow> location out = Some ''N/A'')
          \<and> (blank (date j) \<longrightarrow> date out = Some ''N/A'')
          \<and> (blank (description j) \<longrightarrow> description out = Some ''N/A'')
          \<and> (blank (salary j) \<longrightarrow> salary out = Some ''N/A'')
          \<and> (blank (jobType j) \<longrightarrow> jobType out = Some ''N/A'')
          \<and> (blank (experienceLevel j) \<longrightarrow> experienceLevel out = Some ''N/A'')
          \<and> (\<not> truthy (link j) \<longrightarrow> link out = Some ''N/A'')
          \<and> (\<not> truthy (companyLink j) \<longrightarrow> companyLink out = Some ''N/A'')
          \<and> (\<not> truthy (companyImgLink j) \<longrightarrow> companyImgLink out = Some ''N/A'')
          \<and> (\<not> truthy (applyLink j) \<longrightarrow> applyLink out = Some ''N/A''))"
proof
  fix out :: "'a job_data_scheme"
  assume "out \<in> set (validJobs raw)"
  then obtain j where j: "j \<in> set raw" "isValidJobData j" and out: "out = sanitizeJobData j"
    by (auto simp: validJobs_def)
  have valid: "isValidJobData out"
    using j(2) out by (simp add: sanitize_valid)
  have fields: "truthy (location out)" "truthy (date out)" "truthy (link out)"
    "truthy (companyLink out)" "truthy (companyImgLink out)" "truthy (applyLink out)"
    "truthy (description out)" "truthy (salary out)" "truthy (jobType out)"
    "truthy (experienceLevel out)"
    by (simp_all add: out sanitize_fields trimOrNA_nonempty orNA_nonempty)
  have defaults:
    "blank (location j) \<longrightarrow> location out = Some ''N/A''"
    "blank (date j) \<longrightarrow> date out = Some ''N/A''"
    "blank (description j) \<longrightarrow> description out = Some ''N/A''"
    "blank (salary j) \<longrightarrow> salary out = Some ''N/A''"
    "blank (jobType j) \<longrightarrow> jobType out = Some ''N/A''"
    "blank (experienceLevel j) \<longrightarrow> experienceLevel out = Some ''N/A''"
    "\<not> truthy (link j) \<longrightarrow> link out = Some ''N/A''"
    "\<not> truthy (companyLink j) \<longrightarrow> companyLink out = Some ''N/A''"
    "\<not> truthy (companyImgLink j) \<longrightarrow> companyImgLink out = Some ''N/A''"
    "\<not> truthy (applyLink j) \<longrightarrow> applyLink out = Some ''N/A''"
    by (simp_all add: out sanitize_fields blank_trimOrNA falsy_orNA)
  from valid have parts:
    "map_option trim (title out) \<noteq> Some []" "map_option trim (company out) \<noteq> Some []"
    "truthy (job_id out)" "truthy (title out)" "truthy (company out)"
    by (simp_all add: isValidJobData_def)
  from j out defaults have ex: "\<exists>j \<in> set raw. isValidJobData j \<and> out = sanitizeJobData j
          \<and> (blank (location j) \<longrightarrow> location out = Some ''N/A'')
          \<and> (blank (date j) \<longrightarrow> date out = Some ''N/A'')
          \<and> (blank (description j) \<longrightarrow> description out = Some ''N/A'')
          \<and> (blank (salary j) \<longrightarrow> salary out = Some ''N/A'')
          \<and> (blank (jobType j) \<longrightarrow> jobType out = Some ''N/A'')
          \<and> (blank (experienceLevel j) \<longrightarrow> experienceLevel out = Some ''N/A'')
          \<and> (\<not> truthy (link j) \<longrightarrow> link out = Some ''N/A'')
          \<and> (\<not> truthy (companyLink j) \<longrightarrow> companyLink out = Some ''N/A'')
          \<and> (\<not> truthy (companyImgLink j) \<longrightarrow> companyImgLink out = Some ''N/A'')
          \<and> (\<not> truthy (applyLink j) \<longrightarrow> applyLink out = Some ''N/A'')"
    by blast
  from valid parts fields ex
  show "isValidJobData out
     \<and> map_option trim (title out) \<noteq> Some [] \<and> map_option trim (company out) \<noteq> Some []
     \<and> truthy (job_id out)
     \<and> truthy (title out) \<and> truthy (company out) \<and> truthy (location out)
     \<and> truthy (date out) \<and> truthy (link out) \<and> truthy (companyLink out)
     \<and> truthy (companyImgLink out) \<and> truthy (applyLink out) \<and> truthy (description out)
     \<and> truthy (salary out) \<and> truthy (jobType out) \<and> truthy (experienceLevel out)
     \<and> (\<exists>j \<in> set raw. isValidJobData j \<and> out = sanitizeJobData j
          \<and> (blank (location j) \<longrightarrow> location out = Some ''N/A'')
          \<and> (blank (date j) \<longrightarrow> date out = Some ''N/A'')
          \<and> (blank (description j) \<longrightarrow> description out = Some ''N/A'')
          \<and> (blank (salary j) \<longrightarrow> salary out = Some ''N/A'')
          \<and> (blank (jobType j) \<longrightarrow> jobType out = Some ''N/A'')
          \<and> (blank (experienceLevel j) \<longrightarrow> experienceLevel out = Some ''N/A'')
          \<and> (\<not> truthy (link j) \<longrightarrow> link out = Some ''N/A'')
          \<and> (\<not> truthy (companyLink j) \<longrightarrow> companyLink out = Some ''N/A'')
          \<and> (\<not> truthy (companyImgLink j) \<longrightarrow> companyImgLink out = Some ''N/A'')
          \<and> (\<not> truthy (applyLink j) \<longrightarrow> applyLink out = Some ''N/A''))"
    by (intro conjI)
qed


theorem validJobs_valid_and_defaulted_witness:
  "sanitizeJobData \<lparr> job_id = Some ''4012'', title = Some '' Nurse '', company = Some ''Acme'',
       companyLink = Some '''', companyImgLink = None, location = Some ''  '', date = None,
       link = Some ''https://www.linkedin.com/jobs/view/4012'', applyLink = Some '''',
       description = Some '''', salary = None, jobType = None, experienceLevel = None \<rparr>
     \<in> set (validJobs [\<lparr> job_id = Some ''4012'', title = Some '' Nurse '', company = Some ''Acme'',
       companyLink = Some '''', companyImgLink = None, location = Some ''  '', date = None,
       link = Some ''https://www.linkedin.com/jobs/view/4012'', applyLink = Some '''',
       description = Some '''', salary = None, jobType = None, experienceLevel = None \<rparr>])
   \<and> isValidJobData (sanitizeJobData \<lparr> job_id = Some ''4012'', title = Some '' Nurse '',
       company = Some ''Acme'',
       companyLink = Some '''', companyImgLink = None, location = Some ''  '', date = None,
       link = Some ''https://www.linkedin.com/jobs/view/4012'', applyLink = Some '''',
       description = Some '''', salary = None, jobType = None, experienceLevel = None \<rparr>)
   \<and> sanitizeJobData \<lparr> job_id = Some ''4012'', title = Some '' Nurse '', company = Some ''Acme'',
       companyLink = Some '''', companyImgLink = None, location = Some ''  '', date = None,
       link = Some ''https://www.linkedin.com/jobs/view/4012'', applyLink = Some '''',
       description = Some '''', salary = None, jobType = None, experienceLevel = None \<rparr>
     = \<lparr> job_id = Some ''4012'', title = Some ''Nurse'', company = Some ''Acme'',
       companyLink = Some ''N/A'', companyImgLink = Some ''N/A'', location = Some ''N/A'',
       date = Some ''N/A'', link = Some ''https://www.linkedin.com/jobs/view/4012'',
       applyLink = Some ''N/A'', description = Some ''N/A'', salary = Some ''N/A'',
       jobType = Some ''N/A'', experienceLevel = Some ''N/A'' \<rparr>"
proof -
  let ?j = "\<lparr> job_id = Some ''4012'', title = Some '' Nurse '', company = Some ''Acme'',
       companyLink = Some '''', companyImgLink = None, location = Some ''  '', date = None,
       link = Some ''https://www.linkedin.com/jobs/view/4012'', applyLink = Some '''',
       description = Some '''', salary = None, jobType = None, experienceLevel = None \<rparr>"
  have valid: "isValidJobData ?j"
    by (simp add: isValidJobData_def trim_def isWhiteSpace_def)
  then have mem: "sanitizeJobData ?j \<in> set (validJobs [?j])"
    by (simp add: validJobs_def)
  with validJobs_valid_and_defaulted [of "[?j]"]
  have "isValidJobData (sanitizeJobData ?j)" by blast
  moreover have "sanitizeJobData ?j = \<lparr> job_id = Some ''4012'', title = Some ''Nurse'', company = Some ''Acme'',
       companyLink = Some ''N/A'', companyImgLink = Some ''N/A'', location = Some ''N/A'',
       date = Some ''N/A'', link = Some ''https://www.linkedin.com/jobs/view/4012'',
       applyLink = Some ''N/A'', description = Some ''N/A'', salary = Some ''N/A'',
       jobType = Some ''N/A'', experienceLevel = Some ''N/A'' \<rparr>"
    by (simp add: sanitizeJobData_def trimOrNA_def orNA_def trim_def isWhiteSpace_def)
  ultimately show ?thesis using mem by blast
qed

text \<open>
  The claim as written also promises an id that is non-empty after trimming and the
  default for every blank field. A scraped record whose id is a single space and whose
  link is two spaces passes the filter: in the output its trimmed id is empty and its
  link is still the two spaces.
\<close>

theorem validJobs_untrimmed_id_counterexample:
  "map (map_option trim \<circ> job_id)
     (validJobs [\<lparr> job_id = Some '' '', title = Some ''Nurse'', company = Some ''Acme'',
        companyLink = Some '''', companyImgLink = Some '''', location = Some ''Austin, TX'',
        date = Some '''', link = Some ''  '', applyLink = Some '''', description = Some '''',
        salary = Some '''', jobType = Some '''', experienceLevel = Some '''' \<rparr>])
   = [Some []]
   \<and> map link
     (validJobs [\<lparr> job_id = Some '' '', title = Some ''Nurse'', company = Some ''Acme'',
        companyLink = Some '''', companyImgLink = Some '''', location = Some ''Austin, TX'',
        date = Some '''', link = Some ''  '', applyLink = Some '''', description = Some '''',
        salary = Some '''', jobType = Some '''', experienceLevel = Some '''' \<rparr>])
   = [Some ''  '']"
  by (simp add: validJobs_def isValidJobData_def sanitizeJobData_def trimOrNA_def orNA_def
        trim_def isWhiteSpace_def)

section \<open>Errors, classification and backoff (utils.ts)\<close>

text \<open>
  A thrown value, as the classifiers read it: its \<open>name\<close> and its \<open>message\<close>, either
  of which may be absent. \<open>msgIncludes e p\<close> is \<open>error?.message?.includes(p)\<close>.
\<close>

record js_error =
  err_name :: "string option"
  err_message :: "string option"

definition msgIncludes :: "js_error \<Rightarrow> string \<Rightarrow> bool" where
  "msgIncludes error p = (case err_message error of None \<Rightarrow> False | Some m \<Rightarrow> includes_str m p)"

definition isRateLimited :: "js_error \<Rightarrow> bool" where
  "isRateLimited error \<longleftrightarrow>
     msgIncludes error ''429'' \<or> msgIncludes error ''rate limit''
     \<or> msgIncludes error ''too many requests''"

text \<open>The disjunction that \<open>shouldRetry\<close> returns once the budget test has passed.\<close>

definition hasRetrySignature :: "js_error \<Rightarrow> bool" where
  "hasRetrySignature error \<longleftrightarrow>
     isRateLimited error
     \<or> msgIncludes error ''timeout''
     \<or> msgIncludes error ''network''
     \<or> msgIncludes error ''502''
     \<or> msgIncludes error ''503''
     \<or> msgIncludes error ''Target page''
     \<or> msgIncludes error ''browser''
     \<or> msgIncludes error ''context has been closed''
     \<or> msgIncludes error ''TargetClosedError''
     \<or> msgIncludes error ''Protocol error''
     \<or> msgIncludes error ''Connection closed''
     \<or> err_name error = Some ''TargetClosedError''
     \<or> err_name error = Some ''ProtocolError''"

definition shouldRetry :: "js_error \<Rightarrow> int \<Rightarrow> int \<Rightarrow> bool" where
  "shouldRetry error attempt maxRetries =
     (if attempt \<ge> maxRetries then False else hasRetrySignature error)"

subsection \<open>Double-precision arithmetic\<close>

text \<open>
  JavaScript numbers are IEEE 754 doubles: an arithmetic operation returns its exact
  result rounded to 53 significant bits, to nearest and with ties to the even
  significand. \<open>roundDouble x\<close> is that rounding of a real \<open>x \<ge> 0\<close> below \<open>2 ^ 1024\<close>,
  where nothing overflows: \<open>binade x\<close> is the exponent of the power of two at or below
  \<open>x\<close>, \<open>ulp x\<close> the distance between neighbouring doubles there (constant in the
  subnormal range, below \<open>2 ^ - 1022\<close>), and \<open>x\<close> is rounded to a multiple of \<open>ulp x\<close>.
  \<open>bitLength n\<close> is the number of binary digits of \<open>n\<close>.
\<close>

function bitLength :: "nat \<Rightarrow> nat" where
  "bitLength n = (if n = 0 then 0 else Suc (bitLength (n div 2)))"
  by pat_completeness auto
termination
  by (relation "measure id") auto

declare bitLength.simps [simp del]

definition roundHalfEven :: "real \<Rightarrow> int" where
  "roundHalfEven x =
     (let f = \<lfloor>x\<rfloor>; d = x - of_int f
      in if d < 1 / 2 then f else if d > 1 / 2 then f + 1 else if even f then f else f + 1)"

definition binade :: "real \<Rightarrow> int" where
  "binade x =
     (if x \<ge> 1 then int (bitLength (nat \<lfloor>x\<rfloor>)) - 1
      else - int (bitLength (nat (\<lceil>1 / x\<rceil> - 1))))"

definition ulp :: "real \<Rightarrow> real" where
  "ulp x =
     (let e = max (binade x) (- 1022) - 52
      in if e \<ge> 0 then 2 ^ nat e else 1 / 2 ^ nat (- e))"

definition roundDouble :: "real \<Rightarrow> real" where
  "roundDouble x = (if x \<le> 0 then 0 else of_int (roundHalfEven (x / ulp x)) * ulp x)"

subsection \<open>The backoff delay\<close>

text \<open>
  \<open>calculateRetryDelay(attempt)\<close>, with the value \<open>r\<close> that \<open>Math.random()\<close> returns
  as a parameter. \<open>baseDelay * Math.pow(2, attempt)\<close> is exact as long as it is finite
  (a power of two times 1000) and infinite from attempt 1015 on, so that
  \<open>Math.min(..., maxDelay)\<close> is the exact minimum for every attempt. The product
  \<open>Math.random() * 1000\<close> and the sum \<open>delay + jitter\<close> are rounded.
\<close>

definition calculateRetryDelay :: "nat \<Rightarrow> real \<Rightarrow> real" where
  "calculateRetryDelay attempt r =
     (let baseDelay = 1000; maxDelay = 30000;
          delay = min (baseDelay * 2 ^ attempt) maxDelay;
          jitter = roundDouble (r * 1000)
      in roundDouble (delay + jitter))"

text \<open>The decimal numeral of an integer, as a template literal prints a small count.\<close>

definition digitChar :: "nat \<Rightarrow> char" where
  "digitChar d = ''0123456789'' ! d"

function showNat :: "nat \<Rightarrow> string" where
  "showNat n = (if n < 10 then [digitChar n] else showNat (n div 10) @ [digitChar (n mod 10)])"
  by pat_completeness auto
termination
  by (relation "measure id") auto

declare showNat.simps [simp del]

definition showInt :: "int \<Rightarrow> string" where
  "showInt i = (if i < 0 then CHR ''-'' # showNat (nat (- i)) else showNat (nat i))"

section \<open>The retry orchestrator (EnhancedLinkedInScraper.scrapeJobsWithRetry)\<close>

text \<open>
  What the orchestrator does to the outside world, in order: closing the session,
  a fixed sleep (milliseconds), initializing a fresh session, one call of the
  underlying \<open>scrapeJobs\<close>, a \<open>randomDelay(min, max)\<close>, and the backoff sleep of
  \<open>calculateRetryDelay(attempt)\<close> milliseconds.
\<close>

datatype event =
    EvClose
  | EvSleep nat
  | EvInit
  | EvScrape
  | EvRandomDelay nat nat
  | EvBackoff int

text \<open>
  The world one orchestrator call runs in: for each attempt index, whether
  \<open>initialize()\<close> of the fresh session throws, and what \<open>scrapeJobs(params)\<close> returns or
  throws. \<open>CustomLinkedInScraper.close()\<close> catches every error itself and never throws.
\<close>

record retry_env =
  init_at :: "int \<Rightarrow> js_error option"
  scrape_at :: "int \<Rightarrow> js_error + job_data list"

text \<open>The body of the \<open>try\<close> block of one attempt.\<close>

definition tryBody :: "retry_env \<Rightarrow> int \<Rightarrow> (js_error + job_data list) \<times> event list" where
  "tryBody env attempt =
     (if attempt > 0 then
        (case init_at env attempt of
           Some e \<Rightarrow> (Inl e, [EvClose, EvSleep 2000, EvInit])
         | None \<Rightarrow> (scrape_at env attempt, [EvClose, EvSleep 2000, EvInit, EvScrape]))
      else (scrape_at env attempt, [EvScrape]))"

definition exhaustedError :: "int \<Rightarrow> js_error" where
  "exhaustedError maxRetries =
     \<lparr> err_name = Some ''Error'',
       err_message = Some (''Failed to scrape jobs after '' @ showInt (maxRetries + 1) @ '' attempts'') \<rparr>"

function retryLoop :: "int \<Rightarrow> retry_env \<Rightarrow> int \<Rightarrow> (js_error + job_data list) \<times> event list" where
  "retryLoop maxRetries env attempt =
     (if attempt \<le> maxRetries then
        (case tryBody env attempt of
           (Inr jobs, evs) \<Rightarrow> (Inr (validJobs jobs), evs)
         | (Inl error, evs) \<Rightarrow>
             (let evs1 = evs @ (if isRateLimited error then [EvRandomDelay 5000 10000] else [])
              in if \<not> shouldRetry error attempt maxRetries then (Inl error, evs1)
                 else
                   (let evs2 = evs1 @ (if attempt + 1 \<le> maxRetries
                                       then [EvBackoff (attempt + 1)] else [])
                    in case retryLoop maxRetries env (attempt + 1) of
                         (r, evs3) \<Rightarrow> (r, evs2 @ evs3))))
      else (Inl (exhaustedError maxRetries), []))"
  by pat_completeness auto
termination
  by (relation "measure (\<lambda>(maxRetries, env, attempt). nat (maxRetries + 1 - attempt))") auto

declare retryLoop.simps [simp del]

text \<open>\<open>this.config.maxRetries || 3\<close>: an absent or zero setting means 3.\<close>

definition effectiveMaxRetries :: "int option \<Rightarrow> int" where
  "effectiveMaxRetries m = (case m of None \<Rightarrow> 3 | Some n \<Rightarrow> if n = 0 then 3 else n)"

definition scrapeJobsWithRetry ::
    "int option \<Rightarrow> retry_env \<Rightarrow> (js_error + job_data list) \<times> event list" where
  "scrapeJobsWithRetry cfgMaxRetries env = retryLoop (effectiveMaxRetries cfgMaxRetries) env 0"


section \<open>The batch coordinator (EnhancedLinkedInScraper.batchScrapeJobs)\<close>

text \<open>
  Each request of the batch is given by the world its orchestrator call runs in.
  \<open>requestDelay\<close> is the configuration value: when it is truthy, a successful request
  is followed by \<open>randomDelay(requestDelay, requestDelay + 2000)\<close>.
\<close>

definition interRequestDelay :: "nat option \<Rightarrow> event list" where
  "interRequestDelay requestDelay =
     (case requestDelay of
        None \<Rightarrow> []
      | Some d \<Rightarrow> if d = 0 then [] else [EvRandomDelay d (d + 2000)])"

fun batchLoop ::
    "int option \<Rightarrow> nat option \<Rightarrow> retry_env list \<Rightarrow> job_data list \<Rightarrow> event list
     \<Rightarrow> (js_error + job_data list) \<times> event list" where
  "batchLoop m d [] allJobs evs = (Inr allJobs, evs)"
| "batchLoop m d (params # rest) allJobs evs =
     (case scrapeJobsWithRetry m params of
        (Inr jobs, es) \<Rightarrow> batchLoop m d rest (allJobs @ jobs) (evs @ es @ interRequestDelay d)
      | (Inl error, es) \<Rightarrow> batchLoop m d rest allJobs (evs @ es))"

definition batchScrapeJobs ::
    "int option \<Rightarrow> nat option \<Rightarrow> retry_env list \<Rightarrow> (js_error + job_data list) \<times> event list" where
  "batchScrapeJobs m d jobParams = batchLoop m d jobParams [] []"

text \<open>The records of one request that reach the batch result: none when it raised.\<close>

definition recordsOf :: "int option \<Rightarrow> retry_env \<Rightarrow> job_data list" where
  "recordsOf m params =
     (case fst (scrapeJobsWithRetry m params) of Inr jobs \<Rightarrow> jobs | Inl error \<Rightarrow> [])"

section \<open>The legacy entry point (runJobScraper)\<close>

record legacy_job =
  lg_location :: "string option"
  lg_id :: "string option"
  lg_title :: "string option"
  lg_company :: string
  lg_companyLink :: string
  lg_companyImgLink :: string
  lg_place :: "string option"
  lg_date :: "string option"
  lg_link :: "string option"
  lg_applyLink :: string

record simple_job =
  s_id :: string
  s_title :: string
  s_company :: string
  s_location :: string
  s_date :: string
  s_link :: string

definition legacyOfJob :: "job_data \<Rightarrow> legacy_job" where
  "legacyOfJob job =
     \<lparr> lg_location = location job,
       lg_id = job_id job,
       lg_title = title job,
       lg_company = orNA (company job),
       lg_companyLink = orNA (companyLink job),
       lg_companyImgLink = orNA (companyImgLink job),
       lg_place = location job,
       lg_date = date job,
       lg_link = link job,
       lg_applyLink = orNA (applyLink job) \<rparr>"

definition legacyOfSimple :: "simple_job \<Rightarrow> legacy_job" where
  "legacyOfSimple job =
     \<lparr> lg_location = Some (s_location job),
       lg_id = Some (s_id job),
       lg_title = Some (s_title job),
       lg_company = orNA (Some (s_company job)),
       lg_companyLink = ''N/A'',
       lg_companyImgLink = ''N/A'',
       lg_place = Some (s_location job),
       lg_date = Some (s_date job),
       lg_link = Some (s_link job),
       lg_applyLink = ''N/A'' \<rparr>"

text \<open>
  The steps of \<open>runJobScraper\<close>: creating the enhanced scraper, the primary
  \<open>scrapeJobsWithRetry\<close> call with its own events, creating the simple scraper, its
  \<open>scrapeJobs\<close> call, closing it, and the \<open>finally\<close> block closing the enhanced scraper.
\<close>

datatype run_event =
    RunCreateEnhanced
  | RunPrimary "event list"
  | RunCreateSimple
  | RunSimpleScrape
  | RunSimpleClose
  | RunClose

text \<open>
  The world of one \<open>runJobScraper\<close> call. Both \<open>close()\<close> methods catch their own
  errors, so neither the \<open>finally\<close> block nor closing the simple scraper throws.
\<close>

record run_env =
  create_enhanced :: "js_error option"
  primary :: retry_env
  create_simple :: "js_error option"
  simple_scrape :: "js_error + simple_job list"

definition runJobScraper :: "run_env \<Rightarrow> (js_error + legacy_job list) \<times> run_event list" where
  "runJobScraper env =
     (case create_enhanced env of
        Some e \<Rightarrow> (Inl e, [RunCreateEnhanced])
      | None \<Rightarrow>
          (case scrapeJobsWithRetry (Some 2) (primary env) of
             (Inr jobs, evs) \<Rightarrow>
               (Inr (map legacyOfJob jobs), [RunCreateEnhanced, RunPrimary evs, RunClose])
           | (Inl error, evs) \<Rightarrow>
               (case create_simple env of
                  Some fallbackError \<Rightarrow>
                    (Inl error, [RunCreateEnhanced, RunPrimary evs, RunCreateSimple, RunClose])
                | None \<Rightarrow>
                    (case simple_scrape env of
                       Inl fallbackError \<Rightarrow>
                         (Inl error, [RunCreateEnhanced, RunPrimary evs, RunCreateSimple,
                                      RunSimpleScrape, RunClose])
                     | Inr simpleJobs \<Rightarrow>
                         (Inr (map legacyOfSimple simpleJobs),
                          [RunCreateEnhanced, RunPrimary evs, RunCreateSimple,
                           RunSimpleScrape, RunSimpleClose, RunClose])))))"

section \<open>Exhausting the retry budget\<close>

text \<open>
  When every attempt from \<open>a\<close> up to \<open>maxRetries\<close> fails with a retryable error, the
  loop ends in the \<open>catch\<close> block of the last attempt: \<open>shouldRetry\<close> answers false
  at \<open>attempt = maxRetries\<close>, and the error of that attempt is thrown again.
\<close>

lemma retryLoop_exhausted_rethrows:
  assumes "0 \<le> a" "a \<le> m"
    and "\<forall>k. a \<le> k \<and> k \<le> m \<longrightarrow> (\<exists>e. fst (tryBody env k) = Inl e \<and> hasRetrySignature e)"
  shows "fst (retryLoop m env a) = fst (tryBody env m)"
  using assms
proof (induction "nat (m - a)" arbitrary: a)
  case 0
  then have am: "a = m" by simp
  from 0 obtain e where e: "fst (tryBody env m) = Inl e" by (metis am order_refl)
  show ?case
    using e by (cases "tryBody env m") (simp add: am retryLoop.simps [of m env m] shouldRetry_def Let_def)
next
  case (Suc n)
  then have lt: "a < m" by simp
  from Suc.prems obtain e where e: "fst (tryBody env a) = Inl e" "hasRetrySignature e"
    by (metis order_refl)
  have ih: "fst (retryLoop m env (a + 1)) = fst (tryBody env m)"
    using Suc by (intro Suc.hyps(1)) auto
  show ?case
    using e lt ih
    by (cases "tryBody env a"; cases "retryLoop m env (a + 1)")
       (simp add: retryLoop.simps [of m env a] shouldRetry_def Let_def)
qed

text \<open>
  Claim C1 says that after \<open>maxRetries + 1\<close> failed attempts the orchestrator raises
  a terminal error naming the attempt count. Evaluated with a budget of 2 and three
  attempts that each fail with a retryable timeout error, \<open>scrapeJobsWithRetry\<close>
  raises the error of the third attempt, after three scrape calls and two backoff
  sleeps; the terminal error "Failed to scrape jobs after 3 attempts" of the last line
  of the method is a different value and is not what is raised.
\<close>

theorem exhausted_retries_rethrow_last_error:
  "scrapeJobsWithRetry (Some 2)
     \<lparr> init_at = (\<lambda>k. None),
       scrape_at = (\<lambda>k. Inl \<lparr> err_name = Some ''Error'',
                               err_message = Some (''timeout on attempt '' @ showInt k) \<rparr>) \<rparr>
   = (Inl \<lparr> err_name = Some ''Error'', err_message = Some ''timeout on attempt 2'' \<rparr>,
      [EvScrape, EvBackoff 1, EvClose, EvSleep 2000, EvInit, EvScrape,
       EvBackoff 2, EvClose, EvSleep 2000, EvInit, EvScrape])
   \<and> exhaustedError 2
     = \<lparr> err_name = Some ''Error'', err_message = Some ''Failed to scrape jobs after 3 attempts'' \<rparr>"
  by (simp add: scrapeJobsWithRetry_def effectiveMaxRetries_def retryLoop.simps tryBody_def
      isRateLimited_def msgIncludes_def shouldRetry_def hasRetrySignature_def startsWith_def
      exhaustedError_def showInt_def showNat.simps digitChar_def)

section \<open>Backoff delay\<close>

text \<open>Rounding to a double never crosses an integer, below \<open>2 ^ 53\<close>.\<close>

lemma roundHalfEven_le: "x \<le> of_int m \<Longrightarrow> roundHalfEven x \<le> m"
proof -
  assume a: "x \<le> of_int m"
  show ?thesis
  proof (cases "x = of_int m")
    case True
    then show ?thesis by (simp add: roundHalfEven_def)
  next
    case False
    with a have "x < of_int m" by simp
    then have "\<lfloor>x\<rfloor> < m" by (simp add: floor_less_iff)
    then show ?thesis by (simp add: roundHalfEven_def Let_def)
  qed
qed

lemma roundHalfEven_ge: "of_int m \<le> x \<Longrightarrow> m \<le> roundHalfEven x"
proof -
  assume "of_int m \<le> x"
  then have "m \<le> \<lfloor>x\<rfloor>" by (simp add: le_floor_iff)
  then show ?thesis by (simp add: roundHalfEven_def Let_def)
qed

lemma bitLength_zero: "bitLength 0 = 0"
  by (simp add: bitLength.simps [of 0])

lemma bitLength_le: "n < 2 ^ k \<Longrightarrow> bitLength n \<le> k"
proof (induction k arbitrary: n)
  case 0
  then show ?case by (simp add: bitLength_zero)
next
  case (Suc k)
  show ?case
  proof (cases "n = 0")
    case True
    then show ?thesis by (simp add: bitLength_zero)
  next
    case False
    have "n div 2 < 2 ^ k" using Suc.prems by (simp add: div_less_iff_less_mult)
    then have "bitLength (n div 2) \<le> k" by (rule Suc.IH)
    with False show ?thesis by (simp add: bitLength.simps [of n])
  qed
qed

lemma binade_le: "x < 2 ^ 53 \<Longrightarrow> binade x \<le> 52"
proof (cases "x \<ge> 1")
  case True
  assume "x < 2 ^ 53"
  then have "\<lfloor>x\<rfloor> < 2 ^ 53" by (simp add: floor_less_iff)
  then have "nat \<lfloor>x\<rfloor> < 2 ^ 53" using True by (simp add: nat_less_iff)
  then have "bitLength (nat \<lfloor>x\<rfloor>) \<le> 53" by (rule bitLength_le)
  with True show ?thesis by (simp add: binade_def)
next
  case False
  then show ?thesis by (simp add: binade_def)
qed

lemma ulp_fraction: "x < 2 ^ 53 \<Longrightarrow> ulp x = 1 / 2 ^ nat (52 - max (binade x) (- 1022))"
  using binade_le [of x] by (auto simp: ulp_def Let_def)

lemma roundDouble_le:
  assumes "x < 2 ^ 53" "x \<le> real n"
  shows "roundDouble x \<le> real n"
proof (cases "x \<le> 0")
  case True
  then show ?thesis by (simp add: roundDouble_def)
next
  case False
  let ?k = "nat (52 - max (binade x) (- 1022))"
  have u: "ulp x = 1 / 2 ^ ?k" using assms(1) by (rule ulp_fraction)
  have "x / ulp x = x * 2 ^ ?k" by (simp add: u)
  also have "\<dots> \<le> real n * 2 ^ ?k" using assms(2) by simp
  also have "\<dots> = of_int (int (n * 2 ^ ?k))" by simp
  finally have "roundHalfEven (x / ulp x) \<le> int (n * 2 ^ ?k)" by (rule roundHalfEven_le)
  then have "(of_int (roundHalfEven (x / ulp x)) :: real) \<le> of_int (int (n * 2 ^ ?k))"
    by (simp only: of_int_le_iff)
  then have "(of_int (roundHalfEven (x / ulp x)) :: real) \<le> real n * 2 ^ ?k"
    by simp
  then have "of_int (roundHalfEven (x / ulp x)) * ulp x \<le> real n"
    by (simp add: u field_simps)
  with False show ?thesis by (simp add: roundDouble_def)
qed

lemma roundDouble_ge:
  assumes "x < 2 ^ 53" "real n \<le> x"
  shows "real n \<le> roundDouble x"
proof (cases "x \<le> 0")
  case True
  with assms(2) show ?thesis by (simp add: roundDouble_def)
next
  case False
  let ?k = "nat (52 - max (binade x) (- 1022))"
  have u: "ulp x = 1 / 2 ^ ?k" using assms(1) by (rule ulp_fraction)
  have "(of_int (int (n * 2 ^ ?k)) :: real) = real n * 2 ^ ?k" by simp
  also have "\<dots> \<le> x * 2 ^ ?k" using assms(2) by simp
  also have "\<dots> = x / ulp x" by (simp add: u)
  finally have "int (n * 2 ^ ?k) \<le> roundHalfEven (x / ulp x)" by (rule roundHalfEven_ge)
  then have "(of_int (int (n * 2 ^ ?k)) :: real) \<le> of_int (roundHalfEven (x / ulp x))"
    by (simp only: of_int_le_iff)
  then have "real n * 2 ^ ?k \<le> (of_int (roundHalfEven (x / ulp x)) :: real)"
    by simp
  then have "real n \<le> of_int (roundHalfEven (x / ulp x)) * ulp x"
    by (simp add: u field_simps)
  with False show ?thesis by (simp add: roundDouble_def)
qed

text \<open>
  Claim C4, as the code has it. For every attempt index \<open>k\<close> and every value \<open>r\<close> of
  the jitter source with \<open>0 \<le> r < 1\<close>, the delay \<open>calculateRetryDelay k r\<close> lies in the
  closed interval from \<open>min (1000 * 2 ^ k) 30000\<close> to that plus 1000, and is never more
  than 31000 milliseconds.
\<close>

theorem calculateRetryDelay_bounds:
  assumes "0 \<le> r" "r < 1"
  shows "min (1000 * 2 ^ k) 30000 \<le> calculateRetryDelay k r
     \<and> calculateRetryDelay k r \<le> min (1000 * 2 ^ k) 30000 + 1000
     \<and> calculateRetryDelay k r \<le> 31000"
proof -
  let ?d = "min (1000 * 2 ^ k) (30000 :: nat)"
  let ?j = "roundDouble (r * 1000)"
  have d: "(min (1000 * 2 ^ k) 30000 :: real) = real ?d" by (simp add: of_nat_min)
  have j0: "real 0 \<le> ?j" using assms by (intro roundDouble_ge) auto
  have j1: "?j \<le> real 1000" using assms by (intro roundDouble_le) auto
  have dle: "?d \<le> 30000" by simp
  have lo: "real ?d \<le> roundDouble (real ?d + ?j)"
    using j0 j1 dle by (intro roundDouble_ge) auto
  have hi: "roundDouble (real ?d + ?j) \<le> real (?d + 1000)"
    using j0 j1 dle by (intro roundDouble_le) auto
  have c: "calculateRetryDelay k r = roundDouble (real ?d + ?j)"
    unfolding calculateRetryDelay_def Let_def d by simp
  from lo hi dle show ?thesis unfolding c d by auto
qed

lemma bitLength_values: "bitLength 999 = 10" "bitLength 2999 = 12" "bitLength 8500 = 14" "bitLength 500 = 9"
  by (simp_all add: bitLength.simps)

lemma jitter_half: "roundDouble (1 / 2 * 1000) = 500"
proof -
  have b: "binade (1 / 2 * 1000) = 8" by (simp add: binade_def bitLength_values)
  have u: "ulp (1 / 2 * 1000) = 1 / 2 ^ 44" unfolding ulp_def b by simp
  have r: "roundHalfEven (1 / 2 * 1000 / (1 / 2 ^ 44)) = 8796093022208000"
    by (simp add: roundHalfEven_def Let_def)
  show ?thesis unfolding roundDouble_def u r by simp
qed

lemma sum_half: "roundDouble (8000 + 500) = 8500"
proof -
  have b: "binade (8000 + 500) = 13" by (simp add: binade_def bitLength_values)
  have u: "ulp (8000 + 500) = 1 / 2 ^ 39" unfolding ulp_def b by simp
  have r: "roundHalfEven ((8000 + 500) / (1 / 2 ^ 39)) = 4672924418048000"
    by (simp add: roundHalfEven_def Let_def)
  show ?thesis unfolding roundDouble_def u r by simp
qed

theorem calculateRetryDelay_bounds_witness:
  "calculateRetryDelay 3 (1 / 2) = 8500
   \<and> min (1000 * 2 ^ 3) 30000 \<le> calculateRetryDelay 3 (1 / 2)
   \<and> calculateRetryDelay 3 (1 / 2) \<le> min (1000 * 2 ^ 3) 30000 + 1000
   \<and> calculateRetryDelay 3 (1 / 2) \<le> 31000"
proof -
  have m: "min (1000 * 2 ^ 3) (30000 :: real) = 8000" by simp
  have v: "calculateRetryDelay 3 (1 / 2) = 8500"
    unfolding calculateRetryDelay_def Let_def m jitter_half sum_half ..
  from calculateRetryDelay_bounds [of "1 / 2" 3] v show ?thesis by simp
qed

lemma jitter_largest: "roundDouble ((1 - 1 / 2 ^ 52) * 1000) = 1000 - 1 / 2 ^ 42"
proof -
  have f: "\<lfloor>(1 - 1 / 2 ^ 52) * 1000 :: real\<rfloor> = 999" by (simp add: floor_eq_iff)
  have b: "binade ((1 - 1 / 2 ^ 52) * 1000) = 9"
    unfolding binade_def f by (simp add: bitLength_values)
  have u: "ulp ((1 - 1 / 2 ^ 52) * 1000) = 1 / 2 ^ 43"
    unfolding ulp_def b by simp
  have q: "(1 - 1 / 2 ^ 52) * 1000 / (1 / 2 ^ 43) = (8796093022207998 + 3 / 64 :: real)"
    by simp
  have fl: "\<lfloor>8796093022207998 + 3 / 64 :: real\<rfloor> = 8796093022207998"
    by (simp add: floor_eq_iff)
  have r: "roundHalfEven (8796093022207998 + 3 / 64) = 8796093022207998"
    unfolding roundHalfEven_def fl by (simp add: Let_def)
  show ?thesis
    unfolding roundDouble_def u q r by simp
qed

lemma sum_largest: "roundDouble (2000 + (1000 - 1 / 2 ^ 42)) = 3000"
proof -
  have f: "\<lfloor>2000 + (1000 - 1 / 2 ^ 42) :: real\<rfloor> = 2999" by (simp add: floor_eq_iff)
  have b: "binade (2000 + (1000 - 1 / 2 ^ 42)) = 11"
    unfolding binade_def f by (simp add: bitLength_values)
  have u: "ulp (2000 + (1000 - 1 / 2 ^ 42)) = 1 / 2 ^ 41"
    unfolding ulp_def b by simp
  have q: "(2000 + (1000 - 1 / 2 ^ 42)) / (1 / 2 ^ 41) = (6597069766655999 + 1 / 2 :: real)"
    by simp
  have fl: "\<lfloor>6597069766655999 + 1 / 2 :: real\<rfloor> = 6597069766655999"
    by (simp add: floor_eq_iff)
  have r: "roundHalfEven (6597069766655999 + 1 / 2) = 6597069766656000"
    unfolding roundHalfEven_def fl by (simp add: Let_def)
  show ?thesis
    unfolding roundDouble_def u q r by simp
qed

text \<open>
  The upper end of the interval is reached, so the interval is not open there. With
  \<open>r = 1 - 2 ^ - 52\<close> and attempt 1 the jitter \<open>r * 1000\<close> is rounded to
  \<open>1000 - 2 ^ - 42\<close>; the sum \<open>3000 - 2 ^ - 42\<close> lies halfway between two doubles and is
  rounded to the one with the even significand, which is 3000.
\<close>

theorem calculateRetryDelay_reaches_upper_end:
  "(0 :: real) \<le> 1 - 1 / 2 ^ 52 \<and> (1 - 1 / 2 ^ 52 :: real) < 1
   \<and> calculateRetryDelay 1 (1 - 1 / 2 ^ 52) = 3000
   \<and> \<not> calculateRetryDelay 1 (1 - 1 / 2 ^ 52) < min (1000 * 2 ^ 1) 30000 + 1000"
proof -
  have m: "min (1000 * 2 ^ 1) (30000 :: real) = 2000" by simp
  have v: "calculateRetryDelay 1 (1 - 1 / 2 ^ 52) = 3000"
    unfolding calculateRetryDelay_def Let_def m jitter_largest sum_largest ..
  show ?thesis unfolding v by simp
qed

section \<open>Non-retryable errors\<close>

text \<open>
  Claim C5. When attempt 0 takes place (the effective budget is not negative) and the
  underlying scrape fails there with an error that matches neither the rate-limit
  signatures nor any other retry signature, \<open>scrapeJobsWithRetry\<close> raises that very
  error, and all it has done is the one scrape call of attempt 0: no further attempt,
  no cooldown and no backoff sleep.
\<close>

theorem nonretryable_error_raised_at_once:
  assumes "0 \<le> effectiveMaxRetries cfgMaxRetries"
    and "scrape_at env 0 = Inl e"
    and "\<not> isRateLimited e"
    and "\<not> hasRetrySignature e"
  shows "scrapeJobsWithRetry cfgMaxRetries env = (Inl e, [EvScrape])"
  using assms
  by (simp add: scrapeJobsWithRetry_def retryLoop.simps [of _ _ 0] tryBody_def shouldRetry_def)

theorem nonretryable_error_raised_at_once_witness:
  "scrapeJobsWithRetry (Some 2)
     \<lparr> init_at = (\<lambda>k. None),
       scrape_at = (\<lambda>k. Inl \<lparr> err_name = Some ''TypeError'', err_message = Some ''Invalid URL'' \<rparr>) \<rparr>
   = (Inl \<lparr> err_name = Some ''TypeError'', err_message = Some ''Invalid URL'' \<rparr>, [EvScrape])"
  by (rule nonretryable_error_raised_at_once)
     (simp_all add: effectiveMaxRetries_def hasRetrySignature_def isRateLimited_def
        msgIncludes_def startsWith_def)
section \<open>Batch results\<close>

lemma batchLoop_result:
  "fst (batchLoop m d ps acc evs) = Inr (acc @ concat (map (recordsOf m) ps))"
proof (induction ps arbitrary: acc evs)
  case Nil
  show ?case by simp
next
  case (Cons p ps)
  show ?case
  proof (cases "scrapeJobsWithRetry m p")
    case (Pair r es)
    then show ?thesis
      by (cases r) (simp_all add: Cons.IH recordsOf_def)
  qed
qed

text \<open>
  Claim C7. For every list of requests and every outcome of each request,
  \<open>batchScrapeJobs\<close> returns normally, and what it returns is the concatenation, in
  request order, of the record lists of the requests that succeeded; a request that
  raised contributes nothing and removes nothing.
\<close>

theorem batchScrapeJobs_concat_successes:
  "fst (batchScrapeJobs m d jobParams) = Inr (concat (map (recordsOf m) jobParams))"
  by (simp add: batchScrapeJobs_def batchLoop_result)

theorem batchScrapeJobs_concat_successes_witness:
  "fst (batchScrapeJobs (Some 3) (Some 3000)
     [ \<lparr> init_at = (\<lambda>k. None),
         scrape_at = (\<lambda>k. Inr [\<lparr> job_id = Some ''1'', title = Some ''Nurse'', company = Some ''Acme'',
            companyLink = None, companyImgLink = None, location = Some ''Austin, TX'', date = None,
            link = None, applyLink = None, description = None, salary = None, jobType = None,
            experienceLevel = None \<rparr>]) \<rparr>,
       \<lparr> init_at = (\<lambda>k. None),
         scrape_at = (\<lambda>k. Inl \<lparr> err_name = Some ''Error'', err_message = Some ''BAD'' \<rparr>) \<rparr>,
       \<lparr> init_at = (\<lambda>k. None),
         scrape_at = (\<lambda>k. Inr [\<lparr> job_id = Some ''2'', title = Some ''Cook'', company = Some ''Bistro'',
            companyLink = None, companyImgLink = None, location = Some ''Denver, CO'', date = None,
            link = None, applyLink = None, description = None, salary = None, jobType = None,
            experienceLevel = None \<rparr>]) \<rparr> ])
   = Inr [ \<lparr> job_id = Some ''1'', title = Some ''Nurse'', company = Some ''Acme'',
            companyLink = Some ''N/A'', companyImgLink = Some ''N/A'', location = Some ''Austin, TX'',
            date = Some ''N/A'', link = Some ''N/A'', applyLink = Some ''N/A'',
            description = Some ''N/A'', salary = Some ''N/A'', jobType = Some ''N/A'',
            experienceLevel = Some ''N/A'' \<rparr>,
          \<lparr> job_id = Some ''2'', title = Some ''Cook'', company = Some ''Bistro'',
            companyLink = Some ''N/A'', companyImgLink = Some ''N/A'', location = Some ''Denver, CO'',
            date = Some ''N/A'', link = Some ''N/A'', applyLink = Some ''N/A'',
            description = Some ''N/A'', salary = Some ''N/A'', jobType = Some ''N/A'',
            experienceLevel = Some ''N/A'' \<rparr> ]"
  unfolding batchScrapeJobs_concat_successes
  by (simp add: recordsOf_def scrapeJobsWithRetry_def effectiveMaxRetries_def
        retryLoop.simps [of _ _ 0] tryBody_def shouldRetry_def hasRetrySignature_def
        isRateLimited_def msgIncludes_def startsWith_def validJobs_def isValidJobData_def
        sanitizeJobData_def trimOrNA_def orNA_def trim_def isWhiteSpace_def)

section \<open>Fallback of the legacy entry point\<close>

text \<open>
  Claim C6. When the enhanced scraper was created and its \<open>scrapeJobsWithRetry\<close> call
  raises \<open>E\<close>, as it does when the retry budget is used up, \<open>runJobScraper\<close> has made
  that call once, creates the simple scraper exactly once and, if that succeeds, calls
  its \<open>scrapeJobs\<close> exactly once; the steps of the whole run are fixed. If creating the
  simple scraper or its scrape fails, \<open>runJobScraper\<close> raises \<open>E\<close>, the error of the
  primary path, not the error of the fallback; if the fallback scrape succeeds, its
  records are returned in the legacy format.
\<close>

theorem fallback_once_then_original_error:
  assumes "create_enhanced env = None"
    and "scrapeJobsWithRetry (Some 2) (primary env) = (Inl E, evs)"
  shows "count_list (snd (runJobScraper env)) (RunPrimary evs) = 1
     \<and> count_list (snd (runJobScraper env)) RunCreateSimple = 1
     \<and> count_list (snd (runJobScraper env)) RunSimpleScrape
         = (if create_simple env = None then 1 else 0)
     \<and> snd (runJobScraper env)
         = [RunCreateEnhanced, RunPrimary evs, RunCreateSimple]
           @ (case create_simple env of
                Some creationError \<Rightarrow> []
              | None \<Rightarrow>
                  (case simple_scrape env of
                     Inl fallbackError \<Rightarrow> [RunSimpleScrape]
                   | Inr simpleJobs \<Rightarrow> [RunSimpleScrape, RunSimpleClose]))
           @ [RunClose]
     \<and> (create_simple env \<noteq> None \<or> (\<exists>fallbackError. simple_scrape env = Inl fallbackError)
          \<longrightarrow> fst (runJobScraper env) = Inl E)
     \<and> (\<forall>simpleJobs. create_simple env = None \<and> simple_scrape env = Inr simpleJobs
          \<longrightarrow> fst (runJobScraper env) = Inr (map legacyOfSimple simpleJobs))"
  using assms
  by (auto simp: runJobScraper_def split: option.splits sum.splits)

theorem fallback_once_then_original_error_witness:
  "runJobScraper
     \<lparr> create_enhanced = None,
       primary = \<lparr> init_at = (\<lambda>k. None),
                   scrape_at = (\<lambda>k. Inl \<lparr> err_name = Some ''Error'',
                       err_message = Some (''timeout on attempt '' @ showInt k) \<rparr>) \<rparr>,
       create_simple = None,
       simple_scrape = Inl \<lparr> err_name = Some ''Error'', err_message = Some ''Scraping error'' \<rparr> \<rparr>
   = (Inl \<lparr> err_name = Some ''Error'', err_message = Some ''timeout on attempt 2'' \<rparr>,
      [RunCreateEnhanced,
       RunPrimary [EvScrape, EvBackoff 1, EvClose, EvSleep 2000, EvInit, EvScrape,
                   EvBackoff 2, EvClose, EvSleep 2000, EvInit, EvScrape],
       RunCreateSimple, RunSimpleScrape, RunClose])"
proof -
  let ?E = "\<lparr> err_name = Some ''Error'', err_message = Some ''timeout on attempt 2'' \<rparr>"
  let ?evs = "[EvScrape, EvBackoff 1, EvClose, EvSleep 2000, EvInit, EvScrape,
               EvBackoff 2, EvClose, EvSleep 2000, EvInit, EvScrape]"
  let ?env = "\<lparr> create_enhanced = None,
       primary = \<lparr> init_at = (\<lambda>k. None),
                   scrape_at = (\<lambda>k. Inl \<lparr> err_name = Some ''Error'',
                       err_message = Some (''timeout on attempt '' @ showInt k) \<rparr>) \<rparr>,
       create_simple = None,
       simple_scrape = Inl \<lparr> err_name = Some ''Error'', err_message = Some ''Scraping error'' \<rparr> \<rparr>"
  have a: "create_enhanced ?env = None" by simp
  have b: "scrapeJobsWithRetry (Some 2) (primary ?env) = (Inl ?E, ?evs)"
    by (simp add: scrapeJobsWithRetry_def effectiveMaxRetries_def retryLoop.simps tryBody_def
        isRateLimited_def msgIncludes_def shouldRetry_def hasRetrySignature_def startsWith_def
        showInt_def showNat.simps digitChar_def)
  from fallback_once_then_original_error [OF a b]
  have "fst (runJobScraper ?env) = Inl ?E"
    and "snd (runJobScraper ?env)
      = [RunCreateEnhanced, RunPrimary ?evs, RunCreateSimple, RunSimpleScrape, RunClose]"
    by simp_all
  then show ?thesis by (simp add: prod_eq_iff)
qed


section \<open>The page and its job cards (CustomLinkedInScraper)\<close>

text \<open>
  What \<open>extractJobsFromPage\<close> reads from one element matching
  \<open>.base-search-card.job-search-card\<close>: the attribute \<open>data-entity-urn\<close>, the text
  content of the title, company, location and date elements, the \<open>href\<close> of the company
  element and of the link element, and the \<open>src\<close> of the image. Each is absent when the
  element or the attribute is.
\<close>

record card =
  entityUrn :: "string option"
  titleText :: "string option"
  companyText :: "string option"
  companyHref :: "string option"
  imgSrc :: "string option"
  locationText :: "string option"
  dateText :: "string option"
  linkHref :: "string option"

text \<open>\<open>x || ""\<close>, \<open>x?.trim() || ""\<close> and \<open>s.replace(p, r)\<close> for a string pattern.\<close>

definition orEmpty :: "string option \<Rightarrow> string" where
  "orEmpty x = (case x of None \<Rightarrow> [] | Some s \<Rightarrow> s)"

definition trimOrEmpty :: "string option \<Rightarrow> string" where
  "trimOrEmpty x = orEmpty (map_option trim x)"

fun replaceFirst :: "string \<Rightarrow> string \<Rightarrow> string \<Rightarrow> string" where
  "replaceFirst p r [] = (if p = [] then r else [])"
| "replaceFirst p r (c # cs) =
     (if startsWith (c # cs) p then r @ drop (length p) (c # cs)
      else c # replaceFirst p r cs)"

definition cardId :: "card \<Rightarrow> string" where
  "cardId el = replaceFirst ''urn:li:jobPosting:'' [] (orEmpty (entityUrn el))"

definition cardJob :: "card \<Rightarrow> job_data" where
  "cardJob el =
     (let rawLink = orEmpty (linkHref el);
          link = (if startsWith rawLink ''http'' then rawLink
                  else ''https://www.linkedin.com'' @ rawLink)
      in \<lparr> job_id = Some (cardId el),
           title = Some (trimOrEmpty (titleText el)),
           company = Some (trimOrEmpty (companyText el)),
           companyLink = Some (orEmpty (companyHref el)),
           companyImgLink = Some (orEmpty (imgSrc el)),
           location = Some (trimOrEmpty (locationText el)),
           date = Some (trimOrEmpty (dateText el)),
           link = Some link,
           applyLink = Some [],
           description = Some [],
           salary = Some [],
           jobType = Some [],
           experienceLevel = Some [] \<rparr>)"

text \<open>
  The \<open>forEach\<close> of \<open>extractJobsFromPage\<close>, with its set \<open>seenIds\<close> and its result
  \<open>jobs\<close>. The set is created anew by every call.
\<close>

fun extractLoop :: "card list \<Rightarrow> string set \<Rightarrow> job_data list \<Rightarrow> job_data list" where
  "extractLoop [] seenIds jobs = jobs"
| "extractLoop (el # els) seenIds jobs =
     (if cardId el = [] \<or> cardId el \<in> seenIds then extractLoop els seenIds jobs
      else if truthy (title (cardJob el))
        then extractLoop els (insert (cardId el) seenIds) (jobs @ [cardJob el])
        else extractLoop els (insert (cardId el) seenIds) jobs)"

definition extractJobs :: "card list \<Rightarrow> job_data list" where
  "extractJobs els = extractLoop els {} []"

text \<open>
  The page as the scraper observes it: the \<open>k\<close>-th time the scraper reads the cards
  of the document (to extract them or to count them) it finds \<open>page k\<close>, or the call
  throws. Reads are numbered from the first extraction of \<open>scrapeJobs\<close>.
\<close>

type_synonym page = "nat \<Rightarrow> js_error + card list"

definition countJobs :: "page \<Rightarrow> nat \<Rightarrow> nat option" where
  "countJobs page k = (case page k of Inl e \<Rightarrow> None | Inr els \<Rightarrow> Some (length els))"

definition extractJobsFromPage :: "page \<Rightarrow> nat \<Rightarrow> js_error + job_data list" where
  "extractJobsFromPage page k = (case page k of Inl e \<Rightarrow> Inl e | Inr els \<Rightarrow> Inr (extractJobs els))"

section \<open>The infinite-scroll loader (CustomLinkedInScraper.loadMoreJobs)\<close>

text \<open>
  \<open>loadMoreJobs\<close> started when \<open>t\<close> reads have been made: read \<open>t\<close> gives
  \<open>currentJobCount\<close>, and scroll attempt \<open>i\<close> (from 0) scrolls to the bottom, waits and
  reads \<open>newJobCount\<close> as read \<open>t + 1 + i\<close>. Any throw inside ends the call with
  \<open>false\<close>. The result is the returned flag and the number of scroll attempts made.
\<close>

definition scrollAttempts :: nat where
  "scrollAttempts = 5"

function scrollLoop :: "page \<Rightarrow> nat \<Rightarrow> nat \<Rightarrow> nat \<Rightarrow> nat \<Rightarrow> bool \<times> nat" where
  "scrollLoop page t currentJobCount newJobCount i =
     (if i < scrollAttempts then
        (case countJobs page (t + 1 + i) of
           None \<Rightarrow> (False, i + 1)
         | Some n \<Rightarrow>
             if n > currentJobCount then (True, i + 1)
             else if i = scrollAttempts - 1 then (False, i + 1)
             else scrollLoop page t currentJobCount n (i + 1))
      else (newJobCount > currentJobCount, i))"
  by pat_completeness auto
termination
  by (relation "measure (\<lambda>(page, t, currentJobCount, newJobCount, i). scrollAttempts - i)") auto

declare scrollLoop.simps [simp del]

definition loadMoreJobs :: "page \<Rightarrow> nat \<Rightarrow> bool \<times> nat" where
  "loadMoreJobs page t =
     (case countJobs page t of
        None \<Rightarrow> (False, 0)
      | Some currentJobCount \<Rightarrow> scrollLoop page t currentJobCount currentJobCount 0)"

section \<open>The single scrape (CustomLinkedInScraper.scrapeJobs)\<close>

definition isCrashError :: "js_error \<Rightarrow> bool" where
  "isCrashError err \<longleftrightarrow>
     msgIncludes err ''Target page''
     \<or> msgIncludes err ''browser''
     \<or> msgIncludes err ''context has been closed''
     \<or> msgIncludes err ''TargetClosedError''
     \<or> msgIncludes err ''Protocol error''
     \<or> msgIncludes err ''Connection closed''
     \<or> err_name err = Some ''TargetClosedError''
     \<or> err_name err = Some ''ProtocolError''"

text \<open>\<open>params.limit || 100\<close> and \<open>jobs.slice(0, targetLimit)\<close>.\<close>

definition targetLimitOf :: "int option \<Rightarrow> int" where
  "targetLimitOf limit = (case limit of None \<Rightarrow> 100 | Some n \<Rightarrow> if n = 0 then 100 else n)"

definition slice0 :: "'a list \<Rightarrow> int \<Rightarrow> 'a list" where
  "slice0 xs n = (if n \<ge> 0 then take (nat n) xs else take (nat (int (length xs) + n)) xs)"

definition maxScrollAttempts :: nat where
  "maxScrollAttempts = 20"

text \<open>
  The \<open>while\<close> loop of \<open>scrapeJobs\<close>, started with \<open>jobs\<close> collected, \<open>passes\<close> passes
  completed (the source's own counter, also named \<open>scrollAttempts\<close>) and \<open>t\<close> reads of
  the page made. \<open>Inl\<close> is the crash error thrown on from the inner \<open>catch\<close>; every
  \<open>break\<close> and the normal end of the loop give \<open>Inr jobs\<close>.
\<close>

function scrapeLoop :: "page \<Rightarrow> int \<Rightarrow> job_data list \<Rightarrow> nat \<Rightarrow> nat \<Rightarrow> js_error + job_data list" where
  "scrapeLoop page targetLimit jobs passes t =
     (if int (length jobs) < targetLimit \<and> passes < maxScrollAttempts then
        (case extractJobsFromPage page t of
           Inl innerErr \<Rightarrow> if isCrashError innerErr then Inl innerErr else Inr jobs
         | Inr newJobs \<Rightarrow>
             if int (length (jobs @ newJobs)) \<ge> targetLimit then Inr (jobs @ newJobs)
             else
               (case loadMoreJobs page (t + 1) of
                  (hasMoreJobs, scrolls) \<Rightarrow>
                    if \<not> hasMoreJobs then Inr (jobs @ newJobs)
                    else scrapeLoop page targetLimit (jobs @ newJobs) (passes + 1)
                           (t + 2 + scrolls)))
      else Inr jobs)"
  by pat_completeness auto
termination
  by (relation "measure (\<lambda>(page, targetLimit, jobs, passes, t). maxScrollAttempts - passes)") auto

declare scrapeLoop.simps [simp del]

text \<open>
  What happens before the loop: \<open>ensureBrowserReady\<close> throws (outside the \<open>try\<close>),
  a step inside the \<open>try\<close> throws (opening the page, stealth set-up, navigation, ...),
  the login wall is detected, or the loop is reached. \<open>reinit\<close> is the error, if any,
  of the \<open>initialize()\<close> that the outer \<open>catch\<close> runs after a crash error.
\<close>

datatype prelude = EnsureThrows js_error | SetupThrows js_error | LoginWall | Ready

record scrape_env =
  prelude_of :: prelude
  page_of :: page
  reinit :: "js_error option"

definition outerCatch :: "scrape_env \<Rightarrow> js_error \<Rightarrow> js_error + job_data list" where
  "outerCatch env err =
     (if isCrashError err then (case reinit env of Some e \<Rightarrow> Inl e | None \<Rightarrow> Inl err)
      else Inl err)"

definition scrapeJobs :: "scrape_env \<Rightarrow> int option \<Rightarrow> js_error + job_data list" where
  "scrapeJobs env limit =
     (case prelude_of env of
        EnsureThrows e \<Rightarrow> Inl e
      | SetupThrows e \<Rightarrow> outerCatch env e
      | LoginWall \<Rightarrow> Inr []
      | Ready \<Rightarrow>
          (let targetLimit = targetLimitOf limit
           in case scrapeLoop (page_of env) targetLimit [] 0 0 of
                Inl err \<Rightarrow> outerCatch env err
              | Inr jobs \<Rightarrow> Inr (slice0 jobs targetLimit)))"

section \<open>When the loader reports the end of the results\<close>





section \<open>Size and identifiers of the single scrape's result\<close>

text \<open>
  One extraction never returns an identifier twice, and a positive limit bounds the
  length of what \<open>scrapeJobs\<close> returns.
\<close>

lemma extractLoop_distinct:
  "distinct (map job_id jobs) \<Longrightarrow> set (map job_id jobs) \<subseteq> Some ` seen
   \<Longrightarrow> distinct (map job_id (extractLoop els seen jobs))"
proof (induction els seen jobs rule: extractLoop.induct)
  case (1 seenIds jobs)
  then show ?case by simp
next
  case (2 el els seenIds jobs)
  have idj: "job_id (cardJob el) = Some (cardId el)" by (simp add: cardJob_def Let_def)
  show ?case
  proof (cases "cardId el = [] \<or> cardId el \<in> seenIds")
    case True
    with 2 show ?thesis by simp
  next
    case False
    show ?thesis
    proof (cases "truthy (title (cardJob el))")
      case True
      have "distinct (map job_id (jobs @ [cardJob el]))"
        using "2.prems" False idj by auto
      moreover have "set (map job_id (jobs @ [cardJob el])) \<subseteq> Some ` insert (cardId el) seenIds"
        using "2.prems" idj by auto
      ultimately show ?thesis using False True "2.IH"(2) by simp
    next
      case F: False
      have "set (map job_id jobs) \<subseteq> Some ` insert (cardId el) seenIds"
        using "2.prems" by auto
      with "2.prems" False F "2.IH"(3) show ?thesis by simp
    qed
  qed
qed

lemma extractJobs_distinct: "distinct (map job_id (extractJobs els))"
  by (simp add: extractJobs_def extractLoop_distinct)

lemma slice0_length: "0 \<le> n \<Longrightarrow> length (slice0 xs n) \<le> nat n"
  by (simp add: slice0_def)

lemma scrapeJobs_at_most_limit:
  assumes "scrapeJobs env (Some n) = Inr jobs" "1 \<le> n"
  shows "int (length jobs) \<le> n"
  using assms
  by (auto simp: scrapeJobs_def outerCatch_def targetLimitOf_def slice0_def Let_def
      split: prelude.splits sum.splits if_splits option.splits)

text \<open>
  Claim C2 says that \<open>scrapeJobs\<close> with limit \<open>N\<close> returns at most \<open>N\<close> records, no two
  with the same id, also across scroll passes. Evaluated with limit 10 on a page that
  shows two cards at first and four after the first scroll: the first pass extracts
  jobs 1 and 2, \<open>loadMoreJobs\<close> sees the count grow, the second pass extracts jobs 1 to
  4 from the same document, and the loader then finds nothing new. The six records
  returned carry the identifiers 1, 2, 1, 2, 3, 4: every extraction starts with an
  empty \<open>seenIds\<close>, and the passes are appended without comparing identifiers.
\<close>

theorem scrapeJobs_repeats_ids_across_passes:
  "map_sum id (map job_id)
     (scrapeJobs
        \<lparr> prelude_of = Ready,
          page_of = (\<lambda>k. Inr (take (if k < 2 then 2 else 4)
            [ \<lparr> entityUrn = Some ''urn:li:jobPosting:1'', titleText = Some ''Nurse'',
                companyText = Some ''Acme'', companyHref = None, imgSrc = None,
                locationText = None, dateText = None, linkHref = None \<rparr>,
              \<lparr> entityUrn = Some ''urn:li:jobPosting:2'', titleText = Some ''Cook'',
                companyText = Some ''Acme'', companyHref = None, imgSrc = None,
                locationText = None, dateText = None, linkHref = None \<rparr>,
              \<lparr> entityUrn = Some ''urn:li:jobPosting:3'', titleText = Some ''Clerk'',
                companyText = Some ''Acme'', companyHref = None, imgSrc = None,
                locationText = None, dateText = None, linkHref = None \<rparr>,
              \<lparr> entityUrn = Some ''urn:li:jobPosting:4'', titleText = Some ''Pilot'',
                companyText = Some ''Acme'', companyHref = None, imgSrc = None,
                locationText = None, dateText = None, linkHref = None \<rparr> ])),
          reinit = None \<rparr>
        (Some 10))
   = Inr [Some ''1'', Some ''2'', Some ''1'', Some ''2'', Some ''3'', Some ''4'']"
  by (simp add: scrapeJobs_def scrapeLoop.simps loadMoreJobs_def scrollLoop.simps countJobs_def
      extractJobsFromPage_def extractJobs_def cardId_def cardJob_def startsWith_def
      trimOrEmpty_def orEmpty_def trim_def isWhiteSpace_def targetLimitOf_def slice0_def
      maxScrollAttempts_def scrollAttempts_def Let_def)


section \<open>Numbers and strings of the URL helpers\<close>









definition charCode :: "char \<Rightarrow> nat" where
  "charCode c = of_char c"





section \<open>URLs and their search parameters\<close>























section \<open>getStartParam and withStartParam\<close>



section \<open>Decimal numerals are read back\<close>











section \<open>Serialized parameters are read back\<close>














lemma char_of_split: "char_of (16 * (charCode c div 16) + charCode c mod 16) = c"
  by (simp add: charCode_def)

























section \<open>Printing a number and reading it back\<close>













section \<open>The start parameter survives the round trip\<close>




end
